theory Spec2Isabelle
  imports Complex_Main
begin

section \<open>Python and numpy primitives used by aerosol.py\<close>

text \<open>
  The values of \<^verbatim>\<open>aerosol.py\<close> are Python floats and numpy float64 arrays. They are
  modelled by real numbers and lists of real numbers: arithmetic is exact, so rounding
  and overflow are outside the model. Every exception the constructor can raise is a
  value of \<open>py_error\<close>, and a function that can raise returns \<open>py_error + 'a\<close>.

  Two numpy functions of the constructor leave the finite floats without raising:
  \<^verbatim>\<open>np.log10\<close> returns \<^verbatim>\<open>-inf\<close> at 0 and \<^verbatim>\<open>nan\<close> below 0, and \<^verbatim>\<open>np.sqrt\<close> returns \<^verbatim>\<open>nan\<close>
  below 0 (each with a warning only). Such a result is the value \<open>NonFinite\<close>: the
  computation goes on, as it does in numpy, but whatever is computed from a non-finite
  value is \<open>NonFinite\<close> again and is not represented further (it may be a finite float
  again, as \<^verbatim>\<open>10 ** -inf\<close> is \<^verbatim>\<open>0.0\<close>, or not). \<open>Finite x\<close> is a result computed with finite
  floats only. The \<^verbatim>\<open>pdf\<close> of a distribution is taken to return finite floats.
\<close>

datatype 'a np_value = Finite 'a | NonFinite

datatype py_error =
  ValueError | TypeError | IndexError | KeyError | ZeroDivisionError | UnboundLocalError

definition bind_result :: "py_error + 'a \<Rightarrow> ('a \<Rightarrow> py_error + 'b) \<Rightarrow> py_error + 'b" where
  "bind_result m f = (case m of Inl e \<Rightarrow> Inl e | Inr v \<Rightarrow> f v)"

text \<open>Python's \<^verbatim>\<open>a / b\<close> on floats raises \<^verbatim>\<open>ZeroDivisionError\<close> when \<^verbatim>\<open>b == 0.0\<close>.\<close>

definition py_truediv :: "real \<Rightarrow> real \<Rightarrow> py_error + real" where
  "py_truediv a b = (if b = 0 then Inl ZeroDivisionError else Inr (a / b))"

text \<open>
  \<^verbatim>\<open>not x\<close> for an optional float argument: \<^verbatim>\<open>None\<close> and \<^verbatim>\<open>0.0\<close> are falsy, every
  other float is truthy.
\<close>

definition truthy :: "real option \<Rightarrow> bool" where
  "truthy x = (case x of None \<Rightarrow> False | Some v \<Rightarrow> v \<noteq> 0)"

text \<open>
  \<^verbatim>\<open>np.log10\<close> of a positive float is its base-10 logarithm; of 0 it is \<^verbatim>\<open>-inf\<close> and of a
  negative float \<^verbatim>\<open>nan\<close>. \<^verbatim>\<open>np.log10(None)\<close> raises \<^verbatim>\<open>TypeError\<close>. \<^verbatim>\<open>np.sqrt\<close> of a negative
  float is \<^verbatim>\<open>nan\<close>.
\<close>

definition np_log10 :: "real \<Rightarrow> real np_value" where
  "np_log10 x = (if 0 < x then Finite (log 10 x) else NonFinite)"

definition np_log10_arg :: "real option \<Rightarrow> py_error + real np_value" where
  "np_log10_arg x = (case x of None \<Rightarrow> Inl TypeError | Some v \<Rightarrow> Inr (np_log10 v))"

definition np_sqrt :: "real \<Rightarrow> real np_value" where
  "np_sqrt x = (if 0 \<le> x then Finite (sqrt x) else NonFinite)"

text \<open>
  A pair and an array of results are finite when every component is.
\<close>

definition np_pair :: "'a np_value \<Rightarrow> 'b np_value \<Rightarrow> ('a \<times> 'b) np_value" where
  "np_pair x y =
     (case x of NonFinite \<Rightarrow> NonFinite
      | Finite a \<Rightarrow> (case y of NonFinite \<Rightarrow> NonFinite | Finite b \<Rightarrow> Finite (a, b)))"

fun np_array :: "'a np_value list \<Rightarrow> 'a list np_value" where
  "np_array [] = Finite []"
| "np_array (NonFinite # xs) = NonFinite"
| "np_array (Finite x # xs) =
     (case np_array xs of NonFinite \<Rightarrow> NonFinite | Finite ys \<Rightarrow> Finite (x # ys))"

text \<open>
  \<^verbatim>\<open>np.linspace(start, stop, num)\<close> with the default \<^verbatim>\<open>endpoint=True\<close>: the samples
  \<^verbatim>\<open>arange(0, num) * step + start\<close> with \<^verbatim>\<open>step = (stop - start) / (num - 1)\<close>, the last
  one overwritten by \<^verbatim>\<open>stop\<close> when \<^verbatim>\<open>num > 1\<close>; a single sample is \<^verbatim>\<open>start\<close>.
  \<^verbatim>\<open>np.logspace\<close> raises 10 to these samples.
\<close>

definition linspace :: "real \<Rightarrow> real \<Rightarrow> nat \<Rightarrow> real list" where
  "linspace start stop num =
     (if num = 1 then [start]
      else let step = (stop - start) / real (num - 1);
               y = map (\<lambda>i. real i * step + start) [0..<num]
           in if 1 < num then y[num - 1 := stop] else y)"

definition logspace :: "real \<Rightarrow> real \<Rightarrow> nat \<Rightarrow> real list" where
  "logspace start stop num = map (\<lambda>y. 10 powr y) (linspace start stop num)"

text \<open>Indexing a sequence with \<^verbatim>\<open>[0]\<close> and \<^verbatim>\<open>[-1]\<close>, and a dict with a key.\<close>

definition getitem_first :: "'a list \<Rightarrow> py_error + 'a" where
  "getitem_first xs = (case xs of [] \<Rightarrow> Inl IndexError | x # _ \<Rightarrow> Inr x)"

definition getitem_last :: "'a list \<Rightarrow> py_error + 'a" where
  "getitem_last xs = (case xs of [] \<Rightarrow> Inl IndexError | _ # _ \<Rightarrow> Inr (last xs))"

definition dict_getitem :: "(string \<rightharpoonup> 'v) \<Rightarrow> string \<Rightarrow> py_error + 'v" where
  "dict_getitem d k = (case d k of None \<Rightarrow> Inl KeyError | Some v \<Rightarrow> Inr v)"

text \<open>
  A local variable of \<^verbatim>\<open>__init__\<close> that the taken path may not have assigned: reading
  it while unassigned raises \<^verbatim>\<open>UnboundLocalError\<close>.
\<close>

definition read_local :: "'a option \<Rightarrow> py_error + 'a" where
  "read_local v = (case v of None \<Rightarrow> Inl UnboundLocalError | Some x \<Rightarrow> Inr x)"

section \<open>dist\_to\_conc\<close>

definition dist_to_conc :: "(real \<Rightarrow> real) \<Rightarrow> real \<Rightarrow> real \<Rightarrow> string \<Rightarrow> real" where
  "dist_to_conc pdf r_min r_max rule =
     (let width = r_max - r_min in
      if rule = ''trapezoid'' then width * 0.5 * (pdf r_max + pdf r_min)
      else if rule = ''simpson'' then
        (width / 6) * (pdf r_max + pdf r_min + 4 * pdf (0.5 * (r_max + r_min)))
      else width * pdf (0.5 * (r_max + r_min)))"

section \<open>The constructor of AerosolSpecies\<close>

text \<open>
  The \<^verbatim>\<open>distribution\<close> argument: a dict, a \<^verbatim>\<open>Lognorm\<close>, a \<^verbatim>\<open>MultiModeLognorm\<close>, or a
  value of any other type. The module \<^verbatim>\<open>lognorm\<close> is not part of the sources, so the
  \<^verbatim>\<open>pdf\<close> method of both classes is a parameter; the constructor reads only \<^verbatim>\<open>mu\<close>,
  \<^verbatim>\<open>sigma\<close>, \<^verbatim>\<open>mus\<close>, \<^verbatim>\<open>sigmas\<close> and \<^verbatim>\<open>pdf\<close>.
\<close>

datatype distribution =
    Dict "string \<rightharpoonup> real list"
  | Lognorm (mu: real) (sigma: real) (pdf: "real \<Rightarrow> real")
  | MultiModeLognorm (mus: "real list") (sigmas: "real list") (pdf: "real \<Rightarrow> real")
  | Unsupported

text \<open>
  The \<^verbatim>\<open>bins\<close> argument: \<^verbatim>\<open>None\<close>, a bin count, or a list of bin edges. A bin count is a
  natural number: \<^verbatim>\<open>np.logspace\<close> takes a number of samples, \<^verbatim>\<open>bins+1\<close>, that is not
  negative.
\<close>

datatype bins_arg = NoBins | BinCount nat | BinEdges "real list"

record AerosolSpecies =
  species :: string
  kappa :: real
  rho :: "real option"
  mw :: "real option"
  bins :: bins_arg
  distribution :: distribution
  r_drys :: "real list"
  rs :: "real list"
  Nis :: "real list"
  N :: "real option"
  nr :: nat

text \<open>
  The two list comprehensions over \<^verbatim>\<open>zip(self.rs[:-1], self.rs[1:])\<close>: the geometric
  means of adjacent edges and the trapezoid estimate of each bin.
\<close>

definition mids_of :: "real list \<Rightarrow> real list np_value" where
  "mids_of es = np_array (map (\<lambda>(a, b). np_sqrt (a * b)) (zip (butlast es) (tl es)))"

definition trapezoids_of :: "(real \<Rightarrow> real) \<Rightarrow> real list \<Rightarrow> real list" where
  "trapezoids_of f es = map (\<lambda>(a, b). 0.5 * (b - a) * (f a + f b)) (zip (butlast es) (tl es))"

text \<open>
  Each branch of the \<^verbatim>\<open>isinstance\<close> chain yields the attributes it assigns:
  \<open>(r_drys, rs, Nis, N)\<close>, with \<open>N = None\<close> when the branch never assigns \<^verbatim>\<open>self.N\<close>.
\<close>

type_synonym branch_attrs = "real list \<times> real list \<times> real list \<times> real option"

definition init_dict :: "(string \<rightharpoonup> real list) \<Rightarrow> py_error + branch_attrs np_value" where
  "init_dict d =
     bind_result (dict_getitem d ''r_drys'') (\<lambda>xs.
       let r_drys' = map (\<lambda>x. x * (1 / 1000000)) xs in
       bind_result (getitem_first r_drys') (\<lambda>r0.
         let rs' = map (\<lambda>x. x * 1000000) [r0 * 0.9, r0 * 1.1] in
         bind_result (dict_getitem d ''Nis'') (\<lambda>ns.
           Inr (Finite (r_drys', rs', ns, Some (sum_list ns))))))"

text \<open>
  Both parametric branches choose the bracket and build the edges with the same
  statements, on \<^verbatim>\<open>mu\<close>, \<^verbatim>\<open>sigma\<close> of the single mode or on the first and last entries of
  \<^verbatim>\<open>mus\<close>, \<^verbatim>\<open>sigmas\<close>: \<open>log_bracket\<close> is the \<^verbatim>\<open>if not r_min and not r_max\<close> statement, which
  yields \<^verbatim>\<open>(lr, rr)\<close>, and \<open>bin_edges\<close> is the \<^verbatim>\<open>isinstance(bins, (list, np.ndarray))\<close>
  statement around it, which yields \<^verbatim>\<open>self.rs\<close>. The parameters of a distribution are
  Python floats, as in the docstring's \<^verbatim>\<open>Lognorm(mu=0.05, sigma=2.0, N=300.)\<close>, so the
  division by \<^verbatim>\<open>10.*sigma\<close> raises when \<^verbatim>\<open>sigma\<close> is 0. Both branches have raised
  \<^verbatim>\<open>ValueError\<close> for a missing \<^verbatim>\<open>bins\<close> before they come to the edges, so the case
  \<open>NoBins\<close> of \<open>bin_edges\<close> is never reached from the constructor.
\<close>

definition log_bracket :: "real \<Rightarrow> real \<Rightarrow> real \<Rightarrow> real \<Rightarrow> real option \<Rightarrow> real option
    \<Rightarrow> py_error + (real \<times> real) np_value" where
  "log_bracket small_mu small_sigma big_mu big_sigma r_min r_max =
     (if \<not> truthy r_min \<and> \<not> truthy r_max then
        bind_result (py_truediv small_mu (10 * small_sigma)) (\<lambda>q.
          Inr (np_pair (np_log10 q) (np_log10 (big_mu * 10 * big_sigma))))
      else
        bind_result (np_log10_arg r_min) (\<lambda>lr.
          bind_result (np_log10_arg r_max) (\<lambda>rr. Inr (np_pair lr rr))))"

definition bin_edges :: "real \<Rightarrow> real \<Rightarrow> real \<Rightarrow> real \<Rightarrow> bins_arg \<Rightarrow> real option \<Rightarrow> real option
    \<Rightarrow> py_error + real list np_value" where
  "bin_edges small_mu small_sigma big_mu big_sigma bins' r_min r_max =
     (case bins' of
        NoBins \<Rightarrow> Inl ValueError
      | BinEdges es \<Rightarrow> Inr (Finite es)
      | BinCount n \<Rightarrow>
          bind_result (log_bracket small_mu small_sigma big_mu big_sigma r_min r_max)
            (\<lambda>bracket. Inr (case bracket of
                 NonFinite \<Rightarrow> NonFinite
               | Finite (lr, rr) \<Rightarrow> Finite (logspace lr rr (n + 1)))))"

text \<open>
  The three statements that both parametric branches end with: the geometric means
  sliced by \<^verbatim>\<open>[0:nbins]\<close>, the trapezoid estimates sliced likewise, and the means times
  \<^verbatim>\<open>1e-6\<close>. Neither branch assigns \<^verbatim>\<open>self.N\<close>.
\<close>

definition bins_between :: "(real \<Rightarrow> real) \<Rightarrow> real list np_value \<Rightarrow> nat \<Rightarrow> branch_attrs np_value" where
  "bins_between f edges nb =
     (case edges of
        NonFinite \<Rightarrow> NonFinite
      | Finite rs' \<Rightarrow>
          (case mids_of rs' of
             NonFinite \<Rightarrow> NonFinite
           | Finite ms \<Rightarrow>
               let mids = take nb ms;
                   Nis' = take nb (trapezoids_of f rs');
                   r_drys' = map (\<lambda>x. x * (1 / 1000000)) mids
               in Finite (r_drys', rs', Nis', None)))"

text \<open>
  In the single-mode branch \<^verbatim>\<open>nbins\<close> is \<^verbatim>\<open>len(self.rs)\<close>, one more than the number of bins,
  a number the model has only for finite edges. The multi-mode branch never assigns
  \<^verbatim>\<open>nbins\<close>.
\<close>

definition init_lognorm :: "real \<Rightarrow> real \<Rightarrow> (real \<Rightarrow> real) \<Rightarrow> bins_arg \<Rightarrow> real option \<Rightarrow> real option
    \<Rightarrow> py_error + branch_attrs np_value" where
  "init_lognorm m s f bins' r_min r_max =
     (if bins' = NoBins then Inl ValueError
      else
        bind_result (bin_edges m s m s bins' r_min r_max) (\<lambda>edges.
          case edges of
            NonFinite \<Rightarrow> Inr NonFinite
          | Finite rs' \<Rightarrow>
              let nbins = Some (length rs') in
              bind_result (read_local nbins) (\<lambda>nb. Inr (bins_between f edges nb))))"

definition init_multimode :: "real list \<Rightarrow> real list \<Rightarrow> (real \<Rightarrow> real) \<Rightarrow> bins_arg
    \<Rightarrow> real option \<Rightarrow> real option \<Rightarrow> py_error + branch_attrs np_value" where
  "init_multimode ms ss f bins' r_min r_max =
     (if bins' = NoBins then Inl ValueError
      else
        bind_result (getitem_first ms) (\<lambda>small_mu.
        bind_result (getitem_first ss) (\<lambda>small_sigma.
        bind_result (getitem_last ms) (\<lambda>big_mu.
        bind_result (getitem_last ss) (\<lambda>big_sigma.
        bind_result (bin_edges small_mu small_sigma big_mu big_sigma bins' r_min r_max) (\<lambda>edges.
          let nbins = None in
          bind_result (read_local nbins) (\<lambda>nb. Inr (bins_between f edges nb))))))))"

text \<open>
  The constructor: the \<^verbatim>\<open>isinstance\<close> chain, then \<^verbatim>\<open>self.Nis *= 1e6\<close> and
  \<^verbatim>\<open>self.nr = len(self.r_drys)\<close> on every path that has not raised. It returns
  \<open>Inl e\<close> when the exception \<open>e\<close> is raised, \<open>Inr (Finite a)\<close> when the object \<open>a\<close> is built
  with finite floats only, and \<open>Inr NonFinite\<close> when nothing is raised but a logarithm or a
  square root on the way has left the finite floats.
\<close>

definition AerosolSpecies_init :: "string \<Rightarrow> distribution \<Rightarrow> real \<Rightarrow> real option \<Rightarrow> real option
    \<Rightarrow> bins_arg \<Rightarrow> real option \<Rightarrow> real option \<Rightarrow> py_error + AerosolSpecies np_value" where
  "AerosolSpecies_init species' distn kappa' rho' mw' bins' r_min r_max =
     bind_result
       (case distn of
          Dict d \<Rightarrow> init_dict d
        | Lognorm m s f \<Rightarrow> init_lognorm m s f bins' r_min r_max
        | MultiModeLognorm ms ss f \<Rightarrow> init_multimode ms ss f bins' r_min r_max
        | Unsupported \<Rightarrow> Inl ValueError)
       (\<lambda>attrs. Inr (case attrs of
            NonFinite \<Rightarrow> NonFinite
          | Finite (r_drys', rs', Nis', N') \<Rightarrow>
              Finite \<lparr>species = species', kappa = kappa', rho = rho', mw = mw', bins = bins',
                      distribution = distn, r_drys = r_drys', rs = rs',
                      Nis = map (\<lambda>x. x * 1000000) Nis', N = N',
                      nr = length r_drys'\<rparr>))"

text \<open>
  The object a construction has built, if it has built one with finite floats only.
\<close>

definition built :: "py_error + 'a np_value \<Rightarrow> 'a option" where
  "built x = (case x of Inl e \<Rightarrow> None | Inr NonFinite \<Rightarrow> None | Inr (Finite a) \<Rightarrow> Some a)"

text \<open>
  The geometric means of adjacent edges as real numbers: what \<open>mids_of\<close> yields when no
  product of adjacent edges is negative (lemma \<open>mids_of_positive\<close>).
\<close>

definition geometric_means :: "real list \<Rightarrow> real list" where
  "geometric_means es = map (\<lambda>(a, b). sqrt (a * b)) (zip (butlast es) (tl es))"

text \<open>
  The two constructions of the class docstring: \<^verbatim>\<open>aerosol1\<close>, a lognormal mode cut into
  200 bins (for any \<^verbatim>\<open>pdf\<close> of the mode), and \<^verbatim>\<open>aerosol2\<close>, a monodisperse population
  given as a dict.
\<close>

definition aerosol1 :: "(real \<Rightarrow> real) \<Rightarrow> py_error + AerosolSpecies np_value" where
  "aerosol1 f =
     AerosolSpecies_init ''(NH4)2SO4'' (Lognorm 0.05 2 f) 0.6 None None (BinCount 200) None None"

definition aerosol2 :: "py_error + AerosolSpecies np_value" where
  "aerosol2 =
     AerosolSpecies_init ''NaCl'' (Dict [''r_drys'' \<mapsto> [0.25], ''Nis'' \<mapsto> [1000]])
       0.2 None None NoBins None None"

text \<open>
  The spec's "\<open>n + 1\<close> edges log-uniformly spaced over the bracket \<open>[lo, hi]\<close>": the edges
  whose base-10 logarithms run from that of \<open>lo\<close> to that of \<open>hi\<close> in \<open>n\<close> equal steps.
\<close>

definition log_spaced :: "real \<Rightarrow> real \<Rightarrow> nat \<Rightarrow> real list" where
  "log_spaced lo hi n =
     map (\<lambda>i. 10 powr (log 10 lo + real i * ((log 10 hi - log 10 lo) / real n))) [0..<n + 1]"

section \<open>Unfolding the constructor\<close>

lemmas init_defs = AerosolSpecies_init_def init_dict_def init_lognorm_def init_multimode_def
  bin_edges_def log_bracket_def bind_result_def dict_getitem_def getitem_first_def
  getitem_last_def read_local_def py_truediv_def np_log10_arg_def truthy_def Let_def
  bins_between_def np_pair_def np_log10_def built_def

section \<open>Samples of linspace and logspace\<close>

text \<open>
  Over the reals the overwritten last sample of \<^verbatim>\<open>linspace\<close> is the value the formula
  gives, so the samples are \<open>start + i * (stop - start) / (num - 1)\<close> throughout.
\<close>

lemma linspace_eq:
  "linspace a b k = map (\<lambda>i. a + real i * ((b - a) / real (k - 1))) [0..<k]"
proof (cases "1 < k")
  case True
  then have last_eq: "real (k - 1) * ((b - a) / real (k - 1)) + a = b"
    by simp
  show ?thesis
  proof (rule nth_equalityI)
    show "length (linspace a b k) = length (map (\<lambda>i. a + real i * ((b - a) / real (k - 1))) [0..<k])"
      using True by (simp add: linspace_def Let_def)
  next
    fix i assume "i < length (linspace a b k)"
    then have i: "i < k" using True by (simp add: linspace_def Let_def)
    show "linspace a b k ! i = map (\<lambda>i. a + real i * ((b - a) / real (k - 1))) [0..<k] ! i"
    proof (cases "i = k - 1")
      case True
      with \<open>1 < k\<close> i last_eq show ?thesis
        by (simp add: linspace_def Let_def add.commute)
    next
      case False
      with \<open>1 < k\<close> i show ?thesis
        by (simp add: linspace_def Let_def add.commute)
    qed
  qed
next
  case False
  then have "k = 0 \<or> k = 1" by arith
  then show ?thesis by (auto simp: linspace_def)
qed

lemma length_logspace: "length (logspace a b k) = k"
  by (simp add: logspace_def linspace_eq)

lemma logspace_nth:
  "i < k \<Longrightarrow> logspace a b k ! i = 10 powr (a + real i * ((b - a) / real (k - 1)))"
  by (simp add: logspace_def linspace_eq)

lemma logspace_pos: "i < k \<Longrightarrow> 0 < logspace a b k ! i"
  by (simp add: logspace_nth)

lemma logspace_strict_mono:
  assumes "a < b" "i < j" "j < k"
  shows "logspace a b k ! i < logspace a b k ! j"
proof -
  from assms have "1 < k" by arith
  with \<open>a < b\<close> have step: "0 < (b - a) / real (k - 1)" by simp
  from \<open>i < j\<close> have "real i < real j" by simp
  then have "real i * ((b - a) / real (k - 1)) < real j * ((b - a) / real (k - 1))"
    using step by (rule mult_strict_right_mono)
  with assms show ?thesis by (simp add: logspace_nth)
qed

lemma sorted_logspace: "a < b \<Longrightarrow> sorted_wrt (<) (logspace a b k)"
  by (simp add: sorted_wrt_iff_nth_less length_logspace logspace_strict_mono)

section \<open>Finite geometric means, and the single-mode branch from its edges\<close>

text \<open>
  Between positive edges every square root is finite. Once the edges are there and
  positive, the single-mode branch builds its object: \<^verbatim>\<open>nbins\<close> is the number of edges, one
  more than the number of bins, so the slices \<^verbatim>\<open>[0:nbins]\<close> keep every bin.
\<close>

lemma np_array_Finite: "np_array (map Finite xs) = Finite xs"
  by (induction xs) simp_all

lemma mids_of_nonneg:
  assumes "\<And>a b. (a, b) \<in> set (zip (butlast es) (tl es)) \<Longrightarrow> 0 \<le> a * b"
  shows "mids_of es = Finite (geometric_means es)"
proof -
  have "map (\<lambda>(a, b). np_sqrt (a * b)) (zip (butlast es) (tl es))
      = map Finite (geometric_means es)"
    using assms by (auto simp: geometric_means_def np_sqrt_def)
  then show ?thesis by (simp add: mids_of_def np_array_Finite)
qed

lemma mids_of_positive:
  assumes "\<And>x. x \<in> set es \<Longrightarrow> 0 < x"
  shows "mids_of es = Finite (geometric_means es)"
proof (rule mids_of_nonneg)
  fix a b assume "(a, b) \<in> set (zip (butlast es) (tl es))"
  then have "a \<in> set (butlast es)" and b: "b \<in> set (tl es)"
    by (auto dest: set_zip_leftD set_zip_rightD)
  then have "a \<in> set es" by (auto dest: in_set_butlastD)
  moreover from b have "b \<in> set es" by (cases es) auto
  ultimately have "0 < a" "0 < b" using assms by simp_all
  then show "0 \<le> a * b" by simp
qed

lemma length_geometric_means: "length (geometric_means es) = length es - 1"
  by (simp add: geometric_means_def)

lemma length_trapezoids_of: "length (trapezoids_of f es) = length es - 1"
  by (simp add: trapezoids_of_def)

lemma geometric_means_nth:
  "Suc i < length es \<Longrightarrow> geometric_means es ! i = sqrt (es ! i * es ! Suc i)"
  by (simp add: geometric_means_def nth_butlast nth_tl)

lemma trapezoids_of_nth:
  "Suc i < length es \<Longrightarrow>
   trapezoids_of f es ! i = 0.5 * (es ! Suc i - es ! i) * (f (es ! i) + f (es ! Suc i))"
  by (simp add: trapezoids_of_def nth_butlast nth_tl)

lemma logspace_positive: "x \<in> set (logspace a b k) \<Longrightarrow> 0 < x"
  by (auto simp: logspace_def)

lemma take_length_means: "take (length es) (geometric_means es) = geometric_means es"
  by (simp add: length_geometric_means)

lemma take_length_trapezoids: "take (length es) (trapezoids_of f es) = trapezoids_of f es"
  by (simp add: length_trapezoids_of)

lemma Lognorm_from_edges:
  assumes "bin_edges m s m s b r_min r_max = Inr (Finite es)"
    and "\<And>x. x \<in> set es \<Longrightarrow> 0 < x"
  shows "\<exists>a. AerosolSpecies_init sp (Lognorm m s f) k r w b r_min r_max = Inr (Finite a)
           \<and> rs a = es
           \<and> r_drys a = map (\<lambda>x. x * (1 / 1000000)) (geometric_means es)
           \<and> Nis a = map (\<lambda>x. x * 1000000) (trapezoids_of f es)
           \<and> N a = None
           \<and> nr a = length es - 1"
proof -
  from assms(1) have "b \<noteq> NoBins" by (auto simp: bin_edges_def)
  moreover from assms(2) have "mids_of es = Finite (geometric_means es)"
    by (rule mids_of_positive)
  ultimately show ?thesis using assms(1)
    by (simp add: AerosolSpecies_init_def init_lognorm_def bind_result_def read_local_def
        bins_between_def take_length_means take_length_trapezoids length_geometric_means)
qed

lemma Lognorm_edges_error:
  assumes "bin_edges m s m s b r_min r_max = Inl e"
  shows "AerosolSpecies_init sp (Lognorm m s f) k r w b r_min r_max = Inl e"
proof (cases "b = NoBins")
  case True
  with assms show ?thesis
    by (simp add: AerosolSpecies_init_def init_lognorm_def bind_result_def bin_edges_def)
next
  case False
  with assms show ?thesis
    by (simp add: AerosolSpecies_init_def init_lognorm_def bind_result_def)
qed

lemma Lognorm_edges_NonFinite:
  assumes "bin_edges m s m s b r_min r_max = Inr NonFinite"
  shows "AerosolSpecies_init sp (Lognorm m s f) k r w b r_min r_max = Inr NonFinite"
proof -
  have "b \<noteq> NoBins"
  proof
    assume "b = NoBins"
    with assms show False by (simp add: bin_edges_def)
  qed
  with assms show ?thesis
    by (simp add: AerosolSpecies_init_def init_lognorm_def bind_result_def)
qed

section \<open>The bracket and the edges of a bin count\<close>

lemma log_bracket_default:
  "\<not> truthy r_min \<Longrightarrow> \<not> truthy r_max \<Longrightarrow>
   log_bracket sm ss bm bs r_min r_max
     = (if ss = 0 then Inl ZeroDivisionError
        else Inr (np_pair (np_log10 (sm / (10 * ss))) (np_log10 (bm * 10 * bs))))"
  by (simp add: log_bracket_def bind_result_def py_truediv_def)

lemma log_bracket_explicit:
  "truthy r_min \<or> truthy r_max \<Longrightarrow>
   log_bracket sm ss bm bs r_min r_max
     = (case (r_min, r_max) of
          (Some lo, Some hi) \<Rightarrow> Inr (np_pair (np_log10 lo) (np_log10 hi))
        | _ \<Rightarrow> Inl TypeError)"
  by (auto simp add: log_bracket_def bind_result_def np_log10_arg_def split: option.splits)

lemma np_pair_positive:
  "0 < x \<Longrightarrow> 0 < y \<Longrightarrow> np_pair (np_log10 x) (np_log10 y) = Finite (log 10 x, log 10 y)"
  by (simp add: np_pair_def np_log10_def)

lemma np_pair_not_positive:
  "\<not> (0 < x \<and> 0 < y) \<Longrightarrow> np_pair (np_log10 x) (np_log10 y) = NonFinite"
  by (auto simp add: np_pair_def np_log10_def)

lemma bin_edges_default:
  assumes "0 < m" "0 < s" "0 < m'" "0 < s'" "\<not> truthy r_min" "\<not> truthy r_max"
  shows "bin_edges m s m' s' (BinCount n) r_min r_max
     = Inr (Finite (logspace (log 10 (m / (10 * s))) (log 10 (m' * 10 * s')) (n + 1)))"
proof -
  from assms have "0 < m / (10 * s)" "0 < m' * 10 * s'" by simp_all
  then have "np_pair (np_log10 (m / (10 * s))) (np_log10 (m' * 10 * s'))
      = Finite (log 10 (m / (10 * s)), log 10 (m' * 10 * s'))"
    by (rule np_pair_positive)
  with assms show ?thesis
    by (simp add: bin_edges_def log_bracket_default bind_result_def)
qed

lemma bin_edges_explicit:
  assumes "0 < lo" "0 < hi"
  shows "bin_edges m s m' s' (BinCount n) (Some lo) (Some hi)
     = Inr (Finite (logspace (log 10 lo) (log 10 hi) (n + 1)))"
proof -
  from assms have "truthy (Some lo) \<or> truthy (Some hi)" by (simp add: truthy_def)
  then have "log_bracket m s m' s' (Some lo) (Some hi)
      = Inr (np_pair (np_log10 lo) (np_log10 hi))"
    by (simp add: log_bracket_explicit)
  with assms show ?thesis
    by (simp add: bin_edges_def bind_result_def np_pair_positive)
qed

lemma bin_edges_explicit_not_positive:
  assumes "truthy (Some lo) \<or> truthy (Some hi)" "\<not> (0 < lo \<and> 0 < hi)"
  shows "bin_edges m s m' s' (BinCount n) (Some lo) (Some hi) = Inr NonFinite"
proof -
  from assms(1) have "log_bracket m s m' s' (Some lo) (Some hi)
      = Inr (np_pair (np_log10 lo) (np_log10 hi))"
    by (simp add: log_bracket_explicit)
  with assms(2) show ?thesis
    by (simp add: bin_edges_def bind_result_def np_pair_not_positive)
qed

lemma bin_edges_one_missing:
  assumes "truthy r_min \<or> truthy r_max" "r_min = None \<or> r_max = None"
  shows "bin_edges m s m' s' (BinCount n) r_min r_max = Inl TypeError"
proof -
  from assms have "log_bracket m s m' s' r_min r_max = Inl TypeError"
    by (auto simp add: log_bracket_explicit split: option.splits)
  then show ?thesis by (simp add: bin_edges_def bind_result_def)
qed

lemma default_bracket_increasing:
  assumes "0 < m" "1 < s"
  shows "log 10 (m / (10 * s)) < log 10 (m * 10 * s)"
proof -
  from assms have "0 < m / (10 * s)" "0 < m * 10 * s" by simp_all
  moreover have "m / (10 * s) < m * 10 * s"
  proof -
    from assms have "1 / (10 * s) < 1" by simp
    also from assms have "1 < 10 * s" by simp
    finally have "1 / (10 * s) < 10 * s" .
    then have "m * (1 / (10 * s)) < m * (10 * s)"
      using \<open>0 < m\<close> by (rule mult_strict_left_mono)
    then show ?thesis by (simp add: mult.assoc)
  qed
  ultimately show ?thesis by simp
qed

lemma sorted_means:
  assumes pos: "\<And>i. i < length es \<Longrightarrow> 0 < es ! i"
    and inc: "sorted_wrt (<) es"
  shows "sorted_wrt (<) (map (\<lambda>x. x * (1 / 1000000)) (geometric_means es))"
proof -
  have "geometric_means es ! i < geometric_means es ! j" if "i < j" "j < length es - 1" for i j
  proof -
    from that have ij: "Suc i < length es" "Suc j < length es" "i < length es" "j < length es"
      by arith+
    from inc that ij have "es ! i < es ! j" "es ! Suc i < es ! Suc j"
      by (simp_all add: sorted_wrt_iff_nth_less)
    moreover from pos ij have "0 < es ! i" "0 < es ! Suc i" "0 < es ! j" by simp_all
    ultimately have "es ! i * es ! Suc i < es ! j * es ! Suc j"
      by (intro mult_strict_mono) simp_all
    with ij show ?thesis by (simp add: geometric_means_nth)
  qed
  then show ?thesis
    by (simp add: sorted_wrt_iff_nth_less length_geometric_means)
qed

lemma Lognorm_from_logspace:
  assumes "bin_edges m s m s b r_min r_max = Inr (Finite (logspace lr rr num))"
  shows "\<exists>a. AerosolSpecies_init sp (Lognorm m s f) k r w b r_min r_max = Inr (Finite a)
           \<and> rs a = logspace lr rr num
           \<and> r_drys a = map (\<lambda>x. x * (1 / 1000000)) (geometric_means (logspace lr rr num))
           \<and> Nis a = map (\<lambda>x. x * 1000000) (trapezoids_of f (logspace lr rr num))
           \<and> N a = None
           \<and> nr a = num - 1"
proof -
  have "0 < x" if "x \<in> set (logspace lr rr num)" for x
    using that by (rule logspace_positive)
  with assms have "\<exists>a. AerosolSpecies_init sp (Lognorm m s f) k r w b r_min r_max = Inr (Finite a)
           \<and> rs a = logspace lr rr num
           \<and> r_drys a = map (\<lambda>x. x * (1 / 1000000)) (geometric_means (logspace lr rr num))
           \<and> Nis a = map (\<lambda>x. x * 1000000) (trapezoids_of f (logspace lr rr num))
           \<and> N a = None
           \<and> nr a = length (logspace lr rr num) - 1"
    by (rule Lognorm_from_edges)
  then show ?thesis by (simp add: length_logspace)
qed

section \<open>The quadrature rules\<close>

text \<open>
  C7. \<^verbatim>\<open>dist_to_conc\<close> returns \<open>(r_max - r_min) * 0.5 * (pdf r_max + pdf r_min)\<close> for the
  rule \<^verbatim>\<open>trapezoid\<close>, \<open>((r_max - r_min) / 6) * (pdf r_max + pdf r_min + 4 * pdf ((r_max + r_min) / 2))\<close>
  for \<^verbatim>\<open>simpson\<close>, and \<open>(r_max - r_min) * pdf ((r_max + r_min) / 2)\<close> for every other rule
  string; on the constant density 2 over \<open>[1, 3]\<close> the trapezoid and the Simpson rule both
  return 4.
\<close>

theorem dist_to_conc_rules:
  "dist_to_conc f r_min r_max ''trapezoid'' = (r_max - r_min) * 0.5 * (f r_max + f r_min)
   \<and> dist_to_conc f r_min r_max ''simpson''
       = ((r_max - r_min) / 6) * (f r_max + f r_min + 4 * f ((r_max + r_min) / 2))
   \<and> (rule \<noteq> ''trapezoid'' \<and> rule \<noteq> ''simpson'' \<longrightarrow>
        dist_to_conc f r_min r_max rule = (r_max - r_min) * f ((r_max + r_min) / 2))
   \<and> dist_to_conc (\<lambda>r. 2) 1 3 ''trapezoid'' = 4
   \<and> dist_to_conc (\<lambda>r. 2) 1 3 ''simpson'' = 4"
  by (simp add: dist_to_conc_def)

theorem dist_to_conc_rules_witness:
  "''midpoint'' \<noteq> ''trapezoid'' \<and> ''midpoint'' \<noteq> ''simpson''
   \<and> dist_to_conc (\<lambda>r. 2) 1 3 ''midpoint'' = (3 - 1) * 2
   \<and> dist_to_conc (\<lambda>r. 2) 1 3 ''nonsense'' = (3 - 1) * 2"
  using dist_to_conc_rules [of "\<lambda>r. 2" 1 3 "''midpoint''"]
        dist_to_conc_rules [of "\<lambda>r. 2" 1 3 "''nonsense''"]
  by simp

section \<open>The pre-binned dict input\<close>

text \<open>
  C1, as stated, fails: the docstring's monodisperse construction does succeed, but its
  \<open>Nis\<close> is \<open>[1e9]\<close>, not the list \<open>[1000]\<close> that was passed in.
\<close>

theorem aerosol2_Nis_not_as_given:
  "map_option Nis (built aerosol2) = Some [1000000000]
   \<and> map_option Nis (built aerosol2) \<noteq> Some [1000]"
  by (simp add: aerosol2_def init_defs)

text \<open>
  C1, amended. The final unit normalization \<^verbatim>\<open>self.Nis *= 1e6\<close> follows the whole
  \<^verbatim>\<open>isinstance\<close> chain and so applies to the dict input too. For every dict with at least
  one dry radius there is no quadrature: \<open>r_drys\<close> is the list of radii given, each times
  \<open>1e-6\<close>, \<open>Nis\<close> is the list of concentrations given, each times \<open>1e6\<close>, and \<open>nr\<close> is the
  number of radii. So the construction from \<^verbatim>\<open>{'r_drys': [0.25], 'Nis': [1000.0]}\<close> yields
  \<open>r_drys = [0.25e-6]\<close>, \<open>Nis = [1000 * 1e6]\<close> and \<open>nr = 1\<close>.
\<close>

theorem dict_Nis_normalized:
  "(d ''r_drys'' = Some (r0 # rest) \<and> d ''Nis'' = Some ns \<longrightarrow>
      (\<exists>a. AerosolSpecies_init sp (Dict d) k r m b r_min r_max = Inr (Finite a)
         \<and> r_drys a = map (\<lambda>x. x * (1 / 1000000)) (r0 # rest)
         \<and> Nis a = map (\<lambda>x. x * 1000000) ns
         \<and> nr a = length (r0 # rest)))
   \<and> (\<exists>a. aerosol2 = Inr (Finite a)
         \<and> r_drys a = [0.25 / 1000000] \<and> Nis a = [1000 * 1000000] \<and> nr a = 1)"
  by (simp add: aerosol2_def init_defs)

theorem dict_Nis_normalized_witness:
  "\<exists>a. AerosolSpecies_init ''NaCl'' (Dict [''r_drys'' \<mapsto> [0.25, 0.5], ''Nis'' \<mapsto> [1000, 250]])
          0.2 None None NoBins None None = Inr (Finite a)
     \<and> r_drys a = [0.25 / 1000000, 0.5 / 1000000]
     \<and> Nis a = [1000 * 1000000, 250 * 1000000]
     \<and> nr a = 2"
  using dict_Nis_normalized
    [of "[''r_drys'' \<mapsto> [0.25, 0.5], ''Nis'' \<mapsto> [1000, 250]]" "0.25" "[0.5]" "[1000, 250]"
        "''NaCl''" "0.2" None None NoBins None None]
  by (simp add: numeral_2_eq_2)

text \<open>
  C2 asks that \<open>N\<close> exist and equal the sum of the final \<open>Nis\<close>. On the two constructions of
  the docstring the code does otherwise: for the dict, \<open>N\<close> is summed before the unit
  normalization, so \<open>N = 1000\<close> while the final \<open>Nis\<close> sums to \<open>1e9\<close>; for the lognormal
  mode, the object is built and no statement has assigned \<open>N\<close>.
\<close>

theorem N_differs_from_sum_Nis:
  "map_option N (built aerosol2) = Some (Some 1000)
   \<and> map_option sum_list (map_option Nis (built aerosol2)) = Some 1000000000
   \<and> map_option N (built (aerosol1 f)) = Some None"
proof -
  have "bin_edges 0.05 2 0.05 2 (BinCount 200) None None
      = Inr (Finite (logspace (log 10 (0.05 / (10 * 2))) (log 10 (0.05 * 10 * 2)) (200 + 1)))"
    by (rule bin_edges_default) (simp_all add: truthy_def)
  from Lognorm_from_logspace [OF this, of "''(NH4)2SO4''" f "0.6" None None]
  have "map_option N (built (aerosol1 f)) = Some None"
    by (auto simp add: aerosol1_def built_def)
  then show ?thesis
    by (simp add: aerosol2_def init_defs)
qed

text \<open>
  C8. For a dict whose list of dry radii starts with \<open>r0\<close>, however many radii follow, the
  bin edges are the two-element list \<open>[0.9 * r0, 1.1 * r0]\<close>, which is
  \<open>[r_drys[0] * 0.9e6, r_drys[0] * 1.1e6]\<close> over the radii converted to metres.
\<close>

theorem dict_edges_from_first_radius:
  "d ''r_drys'' = Some (r0 # rest) \<Longrightarrow> d ''Nis'' = Some ns \<Longrightarrow>
   \<exists>a. AerosolSpecies_init sp (Dict d) k r m b r_min r_max = Inr (Finite a)
     \<and> rs a = [0.9 * r0, 1.1 * r0]
     \<and> rs a = [hd (r_drys a) * 900000, hd (r_drys a) * 1100000]"
  by (simp add: init_defs)

theorem dict_edges_from_first_radius_witness:
  "\<exists>a. AerosolSpecies_init ''NaCl'' (Dict [''r_drys'' \<mapsto> [0.25, 0.5, 4], ''Nis'' \<mapsto> [1000, 2000, 10]])
          0.2 None None NoBins None None = Inr (Finite a)
     \<and> rs a = [0.9 * 0.25, 1.1 * 0.25]
     \<and> rs a = [hd (r_drys a) * 900000, hd (r_drys a) * 1100000]"
  using dict_edges_from_first_radius
    [of "[''r_drys'' \<mapsto> [0.25, 0.5, 4], ''Nis'' \<mapsto> [1000, 2000, 10]]" "0.25" "[0.5, 4]"
        "[1000, 2000, 10]" "''NaCl''" "0.2" None None NoBins None None]
  by simp

text \<open>
  C10, as stated, fails on a dict with lists of different lengths whose list of dry
  radii is empty: \<^verbatim>\<open>self.r_drys[0]\<close> raises \<^verbatim>\<open>IndexError\<close>, so construction does not succeed.
\<close>

theorem dict_without_radii_fails:
  "AerosolSpecies_init ''NaCl'' (Dict [''r_drys'' \<mapsto> [], ''Nis'' \<mapsto> [1000]])
     0.2 None None NoBins None None = Inl IndexError"
  by (simp add: init_defs)

text \<open>
  C10, amended. For a dict with at least one dry radius, the lengths of the two lists are
  never compared: construction succeeds, \<open>nr\<close> is the length of the list of dry radii, and
  \<open>Nis\<close> keeps the length of the list of concentrations, so with lists of different lengths
  \<open>Nis\<close> and \<open>r_drys\<close> are no longer parallel.
\<close>

theorem dict_lengths_unchecked:
  "d ''r_drys'' = Some (r0 # rest) \<Longrightarrow> d ''Nis'' = Some ns \<Longrightarrow>
   \<exists>a. AerosolSpecies_init sp (Dict d) k r m b r_min r_max = Inr (Finite a)
     \<and> nr a = length (r0 # rest)
     \<and> length (r_drys a) = length (r0 # rest)
     \<and> length (Nis a) = length ns
     \<and> (length ns \<noteq> length (r0 # rest) \<longrightarrow>
          length (Nis a) \<noteq> length (r_drys a) \<and> length (Nis a) \<noteq> nr a)"
  by (simp add: init_defs)

theorem dict_lengths_unchecked_witness:
  "\<exists>a. AerosolSpecies_init ''NaCl'' (Dict [''r_drys'' \<mapsto> [0.25, 0.5], ''Nis'' \<mapsto> [1000]])
          0.2 None None NoBins None None = Inr (Finite a)
     \<and> nr a = 2 \<and> length (r_drys a) = 2 \<and> length (Nis a) = 1
     \<and> length (Nis a) \<noteq> length (r_drys a) \<and> length (Nis a) \<noteq> nr a"
  using dict_lengths_unchecked
    [of "[''r_drys'' \<mapsto> [0.25, 0.5], ''Nis'' \<mapsto> [1000]]" "0.25" "[0.5]" "[1000]"
        "''NaCl''" "0.2" None None NoBins None None]
  by (simp add: numeral_2_eq_2)

section \<open>The single-mode lognormal input\<close>

text \<open>
  C5, as stated, fails: the bounds \<^verbatim>\<open>r_min\<close> and \<^verbatim>\<open>r_max\<close> are used as they come, so with
  \<^verbatim>\<open>r_min=10\<close> and \<^verbatim>\<open>r_max=1\<close> the edges of a one-bin mode are \<open>[10, 1]\<close>, which is not
  increasing.
\<close>

theorem decreasing_bracket_decreasing_edges:
  "map_option rs (built (AerosolSpecies_init ''(NH4)2SO4'' (Lognorm 0.05 2 (\<lambda>x. 1)) 0.6 None None
       (BinCount 1) (Some 10) (Some 1))) = Some [10, 1]
   \<and> \<not> sorted_wrt (<) [10, 1 :: real]"
  by (simp add: init_defs logspace_def linspace_def mids_of_def np_sqrt_def)

text \<open>
  C5, amended. For a \<^verbatim>\<open>Lognorm\<close> with positive \<open>mu\<close>, \<open>sigma > 1\<close> and a bin count \<open>n\<close>, whose
  bounds are both falsy (\<^verbatim>\<open>None\<close> or 0) or both supplied and positive: \<open>rs\<close> has \<open>n + 1\<close>
  elements, \<open>r_drys\<close> and \<open>Nis\<close> have \<open>n\<close>, and \<open>r_drys[i]\<close> is \<open>sqrt (rs[i] * rs[i+1]) * 1e-6\<close>;
  \<open>rs\<close> and \<open>r_drys\<close> are strictly increasing when the bounds are both falsy (the default
  bracket) or \<open>r_min < r_max\<close>.
\<close>

theorem Lognorm_bins:
  assumes "0 < m" "1 < s"
    and ok: "(\<not> truthy r_min \<and> \<not> truthy r_max)
             \<or> (\<exists>lo hi. r_min = Some lo \<and> r_max = Some hi \<and> 0 < lo \<and> 0 < hi)"
  shows "\<exists>a. AerosolSpecies_init sp (Lognorm m s f) k r w (BinCount n) r_min r_max = Inr (Finite a)
           \<and> length (rs a) = n + 1 \<and> length (r_drys a) = n \<and> length (Nis a) = n \<and> nr a = n
           \<and> (\<forall>i<n. r_drys a ! i = sqrt (rs a ! i * rs a ! (i + 1)) * (1 / 1000000))
           \<and> ((\<not> truthy r_min \<and> \<not> truthy r_max)
                 \<or> (\<exists>lo hi. r_min = Some lo \<and> r_max = Some hi \<and> lo < hi)
               \<longrightarrow> sorted_wrt (<) (rs a) \<and> sorted_wrt (<) (r_drys a))"
proof -
  from assms obtain lr rr
    where edges: "bin_edges m s m s (BinCount n) r_min r_max
                    = Inr (Finite (logspace lr rr (n + 1)))"
      and inc: "(\<not> truthy r_min \<and> \<not> truthy r_max)
                  \<or> (\<exists>lo hi. r_min = Some lo \<and> r_max = Some hi \<and> lo < hi) \<Longrightarrow> lr < rr"
  proof (cases "\<not> truthy r_min \<and> \<not> truthy r_max")
    case True
    with assms have "bin_edges m s m s (BinCount n) r_min r_max
        = Inr (Finite (logspace (log 10 (m / (10 * s))) (log 10 (m * 10 * s)) (n + 1)))"
      by (intro bin_edges_default) simp_all
    moreover from assms(1,2) have "log 10 (m / (10 * s)) < log 10 (m * 10 * s)"
      by (rule default_bracket_increasing)
    ultimately show ?thesis using that by blast
  next
    case False
    with ok obtain lo hi where b: "r_min = Some lo" "r_max = Some hi" "0 < lo" "0 < hi"
      by blast
    then have "bin_edges m s m s (BinCount n) r_min r_max
        = Inr (Finite (logspace (log 10 lo) (log 10 hi) (n + 1)))"
      by (simp add: bin_edges_explicit)
    moreover have "log 10 lo < log 10 hi"
      if "(\<not> truthy r_min \<and> \<not> truthy r_max)
            \<or> (\<exists>lo hi. r_min = Some lo \<and> r_max = Some hi \<and> lo < hi)"
      using that False b by auto
    ultimately show ?thesis using that by blast
  qed
  let ?es = "logspace lr rr (n + 1)"
  from Lognorm_from_logspace [OF edges, of sp f k r w] obtain a
    where a: "AerosolSpecies_init sp (Lognorm m s f) k r w (BinCount n) r_min r_max = Inr (Finite a)"
      "rs a = ?es" "r_drys a = map (\<lambda>x. x * (1 / 1000000)) (geometric_means ?es)"
      "Nis a = map (\<lambda>x. x * 1000000) (trapezoids_of f ?es)" "nr a = n + 1 - 1"
    by blast
  have lens: "length (rs a) = n + 1" "length (r_drys a) = n" "length (Nis a) = n" "nr a = n"
    using a by (simp_all add: length_logspace length_geometric_means length_trapezoids_of)
  have mids: "r_drys a ! i = sqrt (rs a ! i * rs a ! (i + 1)) * (1 / 1000000)" if "i < n" for i
    using a that by (simp add: length_geometric_means length_logspace geometric_means_nth)
  have sorted: "sorted_wrt (<) (rs a) \<and> sorted_wrt (<) (r_drys a)" if "lr < rr"
  proof -
    from that have s1: "sorted_wrt (<) ?es" by (rule sorted_logspace)
    moreover have "sorted_wrt (<) (map (\<lambda>x. x * (1 / 1000000)) (geometric_means ?es))"
      using s1 by (intro sorted_means) (simp_all add: length_logspace logspace_pos)
    ultimately show ?thesis using a by simp
  qed
  from a(1) lens mids sorted inc show ?thesis by blast
qed

theorem Lognorm_bins_witness:
  "(0::real) < 0.05 \<and> (1::real) < 2
   \<and> (\<exists>a. AerosolSpecies_init ''(NH4)2SO4'' (Lognorm 0.05 2 (\<lambda>x. 1)) 0.6 None None (BinCount 2)
             (Some 1) (Some 10) = Inr (Finite a)
        \<and> length (rs a) = 3 \<and> length (r_drys a) = 2 \<and> length (Nis a) = 2 \<and> nr a = 2
        \<and> r_drys a ! 0 = sqrt (rs a ! 0 * rs a ! 1) * (1 / 1000000)
        \<and> r_drys a ! 1 = sqrt (rs a ! 1 * rs a ! 2) * (1 / 1000000)
        \<and> sorted_wrt (<) (rs a) \<and> sorted_wrt (<) (r_drys a))
   \<and> (\<exists>a. AerosolSpecies_init ''(NH4)2SO4'' (Lognorm 0.05 2 (\<lambda>x. 1)) 0.6 None None (BinCount 2)
             None None = Inr (Finite a)
        \<and> length (rs a) = 3 \<and> length (r_drys a) = 2 \<and> length (Nis a) = 2 \<and> nr a = 2
        \<and> sorted_wrt (<) (rs a) \<and> sorted_wrt (<) (r_drys a))"
proof -
  have h: "(0::real) < 0.05" "(1::real) < 2" by simp_all
  have ok1: "(\<not> truthy (Some 1) \<and> \<not> truthy (Some 10))
      \<or> (\<exists>lo hi. Some (1::real) = Some lo \<and> Some (10::real) = Some hi \<and> 0 < lo \<and> 0 < hi)"
    by simp
  have ok2: "(\<not> truthy None \<and> \<not> truthy None)
      \<or> (\<exists>lo hi. (None::real option) = Some lo \<and> (None::real option) = Some hi \<and> 0 < lo \<and> 0 < hi)"
    by (simp add: truthy_def)
  from Lognorm_bins [OF h ok1, of "''(NH4)2SO4''" "\<lambda>x. 1" "0.6" None None 2]
  obtain a where a: "AerosolSpecies_init ''(NH4)2SO4'' (Lognorm 0.05 2 (\<lambda>x. 1)) 0.6 None None (BinCount 2)
             (Some 1) (Some 10) = Inr (Finite a)"
      "length (rs a) = 2 + 1" "length (r_drys a) = 2" "length (Nis a) = 2" "nr a = 2"
      "\<forall>i<2. r_drys a ! i = sqrt (rs a ! i * rs a ! (i + 1)) * (1 / 1000000)"
      "sorted_wrt (<) (rs a)" "sorted_wrt (<) (r_drys a)"
    by auto
  from Lognorm_bins [OF h ok2, of "''(NH4)2SO4''" "\<lambda>x. 1" "0.6" None None 2]
  obtain b where b: "AerosolSpecies_init ''(NH4)2SO4'' (Lognorm 0.05 2 (\<lambda>x. 1)) 0.6 None None (BinCount 2)
             None None = Inr (Finite b)"
      "length (rs b) = 2 + 1" "length (r_drys b) = 2" "length (Nis b) = 2" "nr b = 2"
      "sorted_wrt (<) (rs b)" "sorted_wrt (<) (r_drys b)"
    by (auto simp: truthy_def)
  from a(6) have "r_drys a ! 0 = sqrt (rs a ! 0 * rs a ! 1) * (1 / 1000000)"
    "r_drys a ! 1 = sqrt (rs a ! 1 * rs a ! 2) * (1 / 1000000)"
    by (simp_all add: numeral_2_eq_2)
  with a b h show ?thesis by auto
qed

text \<open>
  What \<^verbatim>\<open>np.logspace\<close> over the logarithms of a positive bracket yields is the spec's
  log-uniform spacing: edge \<open>i\<close> is \<open>lo * (hi / lo) powr (i / n)\<close>, from \<open>lo\<close> to \<open>hi\<close>.
\<close>

lemma logspace_log_spaced:
  "logspace (log 10 lo) (log 10 hi) (n + 1) = log_spaced lo hi n"
  by (simp add: logspace_def linspace_eq log_spaced_def)

lemma log_spaced_nth:
  assumes "0 < lo" "0 < hi" "i \<le> n"
  shows "log_spaced lo hi n ! i = lo * (hi / lo) powr (real i / real n)"
proof -
  from assms have "log_spaced lo hi n ! i
      = 10 powr (log 10 lo + real i * ((log 10 hi - log 10 lo) / real n))"
    by (simp add: log_spaced_def del: upt_Suc)
  also have "\<dots> = 10 powr (log 10 lo) * 10 powr (log 10 (hi / lo) * (real i / real n))"
    using assms by (simp add: powr_add log_divide mult.commute)
  also have "10 powr (log 10 (hi / lo) * (real i / real n))
      = (10 powr (log 10 (hi / lo))) powr (real i / real n)"
    by (simp only: powr_powr)
  also have "10 powr (log 10 lo) * (10 powr (log 10 (hi / lo))) powr (real i / real n)
      = lo * (hi / lo) powr (real i / real n)"
    using assms by simp
  finally show ?thesis .
qed

lemma log_spaced_ends:
  assumes "0 < lo" "0 < hi"
  shows "log_spaced lo hi n ! 0 = lo" and "0 < n \<Longrightarrow> log_spaced lo hi n ! n = hi"
  using assms by (simp_all add: log_spaced_nth)

text \<open>
  C6, as stated, fails in its second half: with \<^verbatim>\<open>r_min\<close> given and \<^verbatim>\<open>r_max\<close> left out,
  \<^verbatim>\<open>np.log10(None)\<close> raises and there are no edges at all.
\<close>

theorem one_bound_given_no_edges:
  "AerosolSpecies_init ''(NH4)2SO4'' (Lognorm 0.05 2 (\<lambda>x. 1)) 0.6 None None (BinCount 200)
     (Some 0.01) None = Inl TypeError"
  by (simp add: init_defs)

text \<open>
  C6, amended. For a \<^verbatim>\<open>Lognorm\<close> with a bin count \<open>n\<close>: if \<^verbatim>\<open>r_min\<close> and \<^verbatim>\<open>r_max\<close> are both
  falsy (not given, or 0) and \<open>mu\<close> and \<open>sigma\<close> are positive, the \<open>n + 1\<close> edges are
  log-uniformly spaced over \<open>[mu / (10 * sigma), mu * 10 * sigma]\<close>; if both are given and
  positive, the edges are log-uniformly spaced over \<open>[r_min, r_max]\<close>: edge \<open>i\<close> is
  \<open>r_min * (r_max / r_min) powr (i / n)\<close>.
\<close>

theorem Lognorm_edges_log_spaced:
  "(0 < m \<and> 0 < s \<and> \<not> truthy r_min \<and> \<not> truthy r_max \<longrightarrow>
      (\<exists>a. AerosolSpecies_init sp (Lognorm m s f) k r w (BinCount n) r_min r_max = Inr (Finite a)
         \<and> rs a = log_spaced (m / (10 * s)) (m * 10 * s) n))
   \<and> (0 < lo \<and> 0 < hi \<longrightarrow>
      (\<exists>a. AerosolSpecies_init sp (Lognorm m s f) k r w (BinCount n) (Some lo) (Some hi)
              = Inr (Finite a)
         \<and> rs a = log_spaced lo hi n
         \<and> length (rs a) = n + 1
         \<and> (\<forall>i\<le>n. rs a ! i = lo * (hi / lo) powr (real i / real n))))"
proof (intro conjI impI)
  assume h: "0 < m \<and> 0 < s \<and> \<not> truthy r_min \<and> \<not> truthy r_max"
  then have "bin_edges m s m s (BinCount n) r_min r_max
      = Inr (Finite (logspace (log 10 (m / (10 * s))) (log 10 (m * 10 * s)) (n + 1)))"
    by (intro bin_edges_default) simp_all
  from Lognorm_from_logspace [OF this, of sp f k r w]
  show "\<exists>a. AerosolSpecies_init sp (Lognorm m s f) k r w (BinCount n) r_min r_max = Inr (Finite a)
         \<and> rs a = log_spaced (m / (10 * s)) (m * 10 * s) n"
    by (auto simp only: logspace_log_spaced)
next
  assume h: "0 < lo \<and> 0 < hi"
  then have "bin_edges m s m s (BinCount n) (Some lo) (Some hi)
      = Inr (Finite (logspace (log 10 lo) (log 10 hi) (n + 1)))"
    by (intro bin_edges_explicit) simp_all
  from Lognorm_from_logspace [OF this, of sp f k r w] obtain a
    where a: "AerosolSpecies_init sp (Lognorm m s f) k r w (BinCount n) (Some lo) (Some hi)
                = Inr (Finite a)"
      and e: "rs a = log_spaced lo hi n"
    by (auto simp only: logspace_log_spaced)
  from e have "length (rs a) = n + 1" by (simp add: log_spaced_def)
  moreover from e h have "\<forall>i\<le>n. rs a ! i = lo * (hi / lo) powr (real i / real n)"
    by (simp add: log_spaced_nth)
  ultimately show "\<exists>a. AerosolSpecies_init sp (Lognorm m s f) k r w (BinCount n) (Some lo) (Some hi)
              = Inr (Finite a)
         \<and> rs a = log_spaced lo hi n
         \<and> length (rs a) = n + 1
         \<and> (\<forall>i\<le>n. rs a ! i = lo * (hi / lo) powr (real i / real n))"
    using a e by blast
qed

theorem Lognorm_edges_log_spaced_witness:
  "(0::real) < 0.05 \<and> (0::real) < 2 \<and> \<not> truthy None
   \<and> (\<exists>a. AerosolSpecies_init ''(NH4)2SO4'' (Lognorm 0.05 2 (\<lambda>x. 1)) 0.6 None None (BinCount 200)
             None None = Inr (Finite a)
        \<and> rs a = log_spaced (0.05 / (10 * 2)) (0.05 * 10 * 2) 200)
   \<and> (0::real) < 0.01
   \<and> (\<exists>a. AerosolSpecies_init ''(NH4)2SO4'' (Lognorm 0.05 2 (\<lambda>x. 1)) 0.6 None None (BinCount 200)
             (Some 0.01) (Some 1) = Inr (Finite a)
        \<and> rs a = log_spaced 0.01 1 200
        \<and> length (rs a) = 201
        \<and> rs a ! 0 = 0.01 \<and> rs a ! 200 = 1)"
proof -
  from Lognorm_edges_log_spaced
    [of "0.05" 2 None None "''(NH4)2SO4''" "\<lambda>x. 1" "0.6" None None 200 "0.01" 1]
  obtain a b where
    a: "AerosolSpecies_init ''(NH4)2SO4'' (Lognorm 0.05 2 (\<lambda>x. 1)) 0.6 None None (BinCount 200)
             None None = Inr (Finite a)"
       "rs a = log_spaced (0.05 / (10 * 2)) (0.05 * 10 * 2) 200"
    and b: "AerosolSpecies_init ''(NH4)2SO4'' (Lognorm 0.05 2 (\<lambda>x. 1)) 0.6 None None (BinCount 200)
             (Some 0.01) (Some 1) = Inr (Finite b)"
       "rs b = log_spaced 0.01 1 200" "length (rs b) = 200 + 1"
       "\<forall>i\<le>200. rs b ! i = 0.01 * (1 / 0.01) powr (real i / real 200)"
    by (auto simp add: truthy_def)
  from b(4) have "rs b ! 0 = 0.01 * (1 / 0.01) powr (real (0::nat) / real (200::nat))"
    "rs b ! 200 = 0.01 * (1 / 0.01) powr (real (200::nat) / real (200::nat))"
    by blast+
  then have "rs b ! 0 = 0.01" "rs b ! 200 = 1" by simp_all
  with a b show ?thesis by (auto simp add: truthy_def)
qed

section \<open>The guard on the bounds\<close>

text \<open>
  The guard \<^verbatim>\<open>if not r_min and not r_max\<close> of both parametric branches selects the bracket.
  With a list of modes that is not empty, the multi-mode branch gets as far as the guard.
\<close>

lemma MultiModeLognorm_from_edges:
  assumes "ms \<noteq> []" "sgs \<noteq> []"
  shows "AerosolSpecies_init sp (MultiModeLognorm ms sgs f) k r w (BinCount n) r_min r_max
      = (case bin_edges (hd ms) (hd sgs) (last ms) (last sgs) (BinCount n) r_min r_max of
           Inl e \<Rightarrow> Inl e
         | Inr edges \<Rightarrow> Inl UnboundLocalError)"
  using assms
  by (cases ms; cases sgs)
     (simp_all add: AerosolSpecies_init_def init_multimode_def bind_result_def getitem_first_def
        getitem_last_def read_local_def split: sum.splits)

lemma bin_edges_TypeError_iff:
  "bin_edges sm ss bm bs (BinCount n) r_min r_max = Inl TypeError
     \<longleftrightarrow> (truthy r_min \<and> r_max = None) \<or> (r_min = None \<and> truthy r_max)"
  by (auto simp add: bin_edges_def log_bracket_def bind_result_def py_truediv_def
      np_log10_arg_def truthy_def split: option.splits if_splits)

lemma MultiModeLognorm_one_missing:
  assumes "(truthy r_min \<and> r_max = None) \<or> (r_min = None \<and> truthy r_max)"
  shows "AerosolSpecies_init sp (MultiModeLognorm ms sgs f) k r w (BinCount n) r_min r_max
      = (if ms = [] \<or> sgs = [] then Inl IndexError else Inl TypeError)"
proof -
  from assms
  have "bin_edges sm ss bm bs (BinCount n) r_min r_max = Inl TypeError" for sm ss bm bs
    by (simp only: bin_edges_TypeError_iff)
  then show ?thesis
    by (simp add: AerosolSpecies_init_def init_multimode_def bind_result_def getitem_first_def
        getitem_last_def split: list.splits)
qed

lemma Lognorm_explicit_built_iff:
  assumes "truthy r_min \<or> truthy r_max"
  shows "(\<exists>a. AerosolSpecies_init sp (Lognorm m s f) k r w (BinCount n) r_min r_max = Inr (Finite a))
     \<longleftrightarrow> (\<exists>lo hi. r_min = Some lo \<and> r_max = Some hi \<and> 0 < lo \<and> 0 < hi)"
proof (cases "r_min = None \<or> r_max = None")
  case True
  with assms have "bin_edges m s m s (BinCount n) r_min r_max = Inl TypeError"
    by (intro bin_edges_one_missing)
  then have "AerosolSpecies_init sp (Lognorm m s f) k r w (BinCount n) r_min r_max = Inl TypeError"
    by (rule Lognorm_edges_error)
  with True show ?thesis by auto
next
  case False
  then obtain lo hi where b: "r_min = Some lo" "r_max = Some hi" by auto
  show ?thesis
  proof (cases "0 < lo \<and> 0 < hi")
    case True
    then have "bin_edges m s m s (BinCount n) (Some lo) (Some hi)
        = Inr (Finite (logspace (log 10 lo) (log 10 hi) (n + 1)))"
      by (intro bin_edges_explicit) simp_all
    from Lognorm_from_logspace [OF this, of sp f k r w] True b show ?thesis by auto
  next
    case False
    with assms b have "bin_edges m s m s (BinCount n) (Some lo) (Some hi) = Inr NonFinite"
      by (intro bin_edges_explicit_not_positive) simp_all
    then have "AerosolSpecies_init sp (Lognorm m s f) k r w (BinCount n) (Some lo) (Some hi)
        = Inr NonFinite"
      by (rule Lognorm_edges_NonFinite)
    with False b show ?thesis by auto
  qed
qed

text \<open>
  C9, as stated, fails in its second part: \<^verbatim>\<open>r_min=0\<close> is supplied and \<^verbatim>\<open>r_max\<close> is left
  \<^verbatim>\<open>None\<close>, yet both are falsy, the default bracket is taken and the object is built.
\<close>

theorem zero_bound_takes_default_bracket:
  "map_option rs (built (AerosolSpecies_init ''(NH4)2SO4'' (Lognorm 1 10 (\<lambda>x. 1)) 0.6 None None
       (BinCount 1) (Some 0) None)) = Some [1 / 100, 100]"
proof -
  have "log 10 ((10::real) ^ 2) = real 2 * log 10 10"
    by (rule log_nat_power) simp
  then have l: "log 10 (100::real) = 2" by simp
  have "(10::real) powr - 2 = 1 / 100"
    by (simp add: powr_minus_divide)
  moreover from l have "log 10 (1 / 100) = - 2"
    by (simp add: log_divide)
  ultimately show ?thesis using l
    by (simp add: init_defs logspace_def linspace_def mids_of_def np_sqrt_def)
qed

text \<open>
  C9, amended. With a bin count, the default bracket is computed exactly when \<^verbatim>\<open>r_min\<close> and
  \<^verbatim>\<open>r_max\<close> are both falsy (\<^verbatim>\<open>None\<close> or 0), and the logarithms of the two bounds otherwise,
  because the guard tests truthiness. Consequently, if exactly one bound is supplied with
  a value that is not 0 while the other is \<^verbatim>\<open>None\<close>, construction fails with an exception
  that is not \<^verbatim>\<open>ValueError\<close>: the \<^verbatim>\<open>TypeError\<close> of \<^verbatim>\<open>np.log10(None)\<close> (for a multi-mode
  distribution without modes, the \<^verbatim>\<open>IndexError\<close> of \<^verbatim>\<open>mus[0]\<close> before it), which a
  multi-mode distribution with modes raises in this case and in no other. So the explicit
  bracket is only safe, building an object with no \<^verbatim>\<open>-inf\<close> or \<^verbatim>\<open>nan\<close> on the way, when both
  bounds are supplied and positive.
\<close>

theorem bracket_guard_tests_truthiness:
  "(\<not> truthy r_min \<and> \<not> truthy r_max \<longrightarrow>
      log_bracket sm ss bm bs r_min r_max
        = (if ss = 0 then Inl ZeroDivisionError
           else Inr (np_pair (np_log10 (sm / (10 * ss))) (np_log10 (bm * 10 * bs)))))
   \<and> (truthy r_min \<or> truthy r_max \<longrightarrow>
      log_bracket sm ss bm bs r_min r_max
        = (case (r_min, r_max) of
             (Some lo, Some hi) \<Rightarrow> Inr (np_pair (np_log10 lo) (np_log10 hi))
           | _ \<Rightarrow> Inl TypeError))
   \<and> ((truthy r_min \<and> r_max = None) \<or> (r_min = None \<and> truthy r_max) \<longrightarrow>
        AerosolSpecies_init sp (Lognorm m s f) k r w (BinCount n) r_min r_max = Inl TypeError
      \<and> AerosolSpecies_init sp (MultiModeLognorm ms sgs f) k r w (BinCount n) r_min r_max
          = (if ms = [] \<or> sgs = [] then Inl IndexError else Inl TypeError))
   \<and> (ms \<noteq> [] \<and> sgs \<noteq> [] \<longrightarrow>
        (AerosolSpecies_init sp (MultiModeLognorm ms sgs f) k r w (BinCount n) r_min r_max
           = Inl TypeError
         \<longleftrightarrow> (truthy r_min \<and> r_max = None) \<or> (r_min = None \<and> truthy r_max)))
   \<and> (truthy r_min \<or> truthy r_max \<longrightarrow>
        ((\<exists>a. AerosolSpecies_init sp (Lognorm m s f) k r w (BinCount n) r_min r_max
                 = Inr (Finite a))
         \<longleftrightarrow> (\<exists>lo hi. r_min = Some lo \<and> r_max = Some hi \<and> 0 < lo \<and> 0 < hi)))"
proof (intro conjI impI)
  assume "\<not> truthy r_min \<and> \<not> truthy r_max"
  then show "log_bracket sm ss bm bs r_min r_max
        = (if ss = 0 then Inl ZeroDivisionError
           else Inr (np_pair (np_log10 (sm / (10 * ss))) (np_log10 (bm * 10 * bs))))"
    by (intro log_bracket_default) simp_all
next
  assume "truthy r_min \<or> truthy r_max"
  then show "log_bracket sm ss bm bs r_min r_max
        = (case (r_min, r_max) of
             (Some lo, Some hi) \<Rightarrow> Inr (np_pair (np_log10 lo) (np_log10 hi))
           | _ \<Rightarrow> Inl TypeError)"
    by (rule log_bracket_explicit)
next
  assume one: "(truthy r_min \<and> r_max = None) \<or> (r_min = None \<and> truthy r_max)"
  then have "bin_edges m s m s (BinCount n) r_min r_max = Inl TypeError"
    by (simp only: bin_edges_TypeError_iff)
  then show "AerosolSpecies_init sp (Lognorm m s f) k r w (BinCount n) r_min r_max = Inl TypeError"
    by (rule Lognorm_edges_error)
  from one
  show "AerosolSpecies_init sp (MultiModeLognorm ms sgs f) k r w (BinCount n) r_min r_max
          = (if ms = [] \<or> sgs = [] then Inl IndexError else Inl TypeError)"
    by (rule MultiModeLognorm_one_missing)
next
  assume "ms \<noteq> [] \<and> sgs \<noteq> []"
  then have "AerosolSpecies_init sp (MultiModeLognorm ms sgs f) k r w (BinCount n) r_min r_max
      = (case bin_edges (hd ms) (hd sgs) (last ms) (last sgs) (BinCount n) r_min r_max of
           Inl e \<Rightarrow> Inl e
         | Inr edges \<Rightarrow> Inl UnboundLocalError)"
    by (intro MultiModeLognorm_from_edges) simp_all
  then show "AerosolSpecies_init sp (MultiModeLognorm ms sgs f) k r w (BinCount n) r_min r_max
           = Inl TypeError
         \<longleftrightarrow> (truthy r_min \<and> r_max = None) \<or> (r_min = None \<and> truthy r_max)"
    using bin_edges_TypeError_iff [of "hd ms" "hd sgs" "last ms" "last sgs" n r_min r_max]
    by (auto split: sum.splits)
next
  assume "truthy r_min \<or> truthy r_max"
  then show "(\<exists>a. AerosolSpecies_init sp (Lognorm m s f) k r w (BinCount n) r_min r_max
                 = Inr (Finite a))
         \<longleftrightarrow> (\<exists>lo hi. r_min = Some lo \<and> r_max = Some hi \<and> 0 < lo \<and> 0 < hi)"
    by (rule Lognorm_explicit_built_iff)
qed

theorem bracket_guard_tests_truthiness_witness:
  "\<not> truthy (Some 0) \<and> \<not> truthy None
   \<and> log_bracket 0.05 2 0.05 2 (Some 0) None
       = Inr (np_pair (np_log10 (0.05 / (10 * 2))) (np_log10 (0.05 * 10 * 2)))
   \<and> truthy (Some 0.01)
   \<and> log_bracket 0.05 2 0.05 2 (Some 0.01) (Some 1)
       = Inr (np_pair (np_log10 0.01) (np_log10 1))
   \<and> AerosolSpecies_init ''(NH4)2SO4'' (Lognorm 0.05 2 (\<lambda>x. 1)) 0.6 None None (BinCount 10)
       (Some 0.01) None = Inl TypeError
   \<and> AerosolSpecies_init ''(NH4)2SO4'' (MultiModeLognorm [0.05, 0.2] [2, 1.5] (\<lambda>x. 1)) 0.6
       None None (BinCount 10) (Some 0.01) None = Inl TypeError
   \<and> AerosolSpecies_init ''(NH4)2SO4'' (MultiModeLognorm [0.05, 0.2] [2, 1.5] (\<lambda>x. 1)) 0.6
       None None (BinCount 10) (Some 0.01) (Some 1) \<noteq> Inl TypeError
   \<and> (\<exists>a. AerosolSpecies_init ''(NH4)2SO4'' (Lognorm 0.05 2 (\<lambda>x. 1)) 0.6 None None (BinCount 10)
              (Some 0.01) (Some 1) = Inr (Finite a))
   \<and> \<not> (\<exists>a. AerosolSpecies_init ''(NH4)2SO4'' (Lognorm 0.05 2 (\<lambda>x. 1)) 0.6 None None
              (BinCount 10) (Some 0) (Some 1) = Inr (Finite a))"
proof -
  have ex: "\<exists>lo::real. lo * 100 = 1 \<and> 0 < lo"
    by (rule exI [of _ "1 / 100"]) simp
  show ?thesis
  using ex
    bracket_guard_tests_truthiness
      [of "Some 0" None "0.05" 2 "0.05" 2 "''(NH4)2SO4''" "0.05" 2 "\<lambda>x. 1" "0.6" None None 10
          "[0.05, 0.2]" "[2, 1.5]"]
    bracket_guard_tests_truthiness
      [of "Some 0.01" "Some 1" "0.05" 2 "0.05" 2 "''(NH4)2SO4''" "0.05" 2 "\<lambda>x. 1" "0.6" None None 10
          "[0.05, 0.2]" "[2, 1.5]"]
    bracket_guard_tests_truthiness
      [of "Some 0.01" None "0.05" 2 "0.05" 2 "''(NH4)2SO4''" "0.05" 2 "\<lambda>x. 1" "0.6" None None 10
          "[0.05, 0.2]" "[2, 1.5]"]
    bracket_guard_tests_truthiness
      [of "Some 0" "Some 1" "0.05" 2 "0.05" 2 "''(NH4)2SO4''" "0.05" 2 "\<lambda>x. 1" "0.6" None None 10
          "[0.05, 0.2]" "[2, 1.5]"]
  by (simp add: truthy_def)
qed

section \<open>The errors of the constructor\<close>

text \<open>
  C3 asks that a \<^verbatim>\<open>MultiModeLognorm\<close> with a bin count be constructed like a single mode.
  The multi-mode branch slices with \<^verbatim>\<open>[0:nbins]\<close>, but \<^verbatim>\<open>nbins\<close> is assigned in the
  single-mode branch only: whatever the arguments, the constructor raises.
\<close>

theorem MultiModeLognorm_never_constructed:
  "isl (AerosolSpecies_init sp (MultiModeLognorm ms ss f) k r m b r_min r_max)"
  by (auto simp add: AerosolSpecies_init_def init_multimode_def bind_result_def read_local_def
      split: sum.splits)

text \<open>
  \<^verbatim>\<open>ValueError\<close> is raised exactly when \<^verbatim>\<open>bins\<close> is missing for a \<^verbatim>\<open>Lognorm\<close> or a
  \<^verbatim>\<open>MultiModeLognorm\<close>, or the distribution is of another type.
\<close>

lemma ValueError_iff:
  "AerosolSpecies_init sp d k r m b r_min r_max = Inl ValueError \<longleftrightarrow>
     ((\<exists>m' s f. d = Lognorm m' s f) \<or> (\<exists>ms ss f. d = MultiModeLognorm ms ss f)) \<and> b = NoBins
     \<or> d = Unsupported"
  by (cases d; cases b)
     (auto simp add: AerosolSpecies_init_def init_dict_def init_lognorm_def init_multimode_def
        bin_edges_def log_bracket_def bind_result_def dict_getitem_def getitem_first_def
        getitem_last_def read_local_def py_truediv_def np_log10_arg_def Let_def
        split: sum.splits option.splits list.splits if_splits np_value.splits)

text \<open>
  C4 adds that no other construction failure occurs on well-formed inputs. A two-mode
  distribution with ten bins is well formed, and its construction fails with an
  exception that is not \<^verbatim>\<open>ValueError\<close>.
\<close>

theorem two_modes_ten_bins_UnboundLocalError:
  "AerosolSpecies_init ''sulfate'' (MultiModeLognorm [0.05, 0.2] [2, 1.5] f) 0.6 None None
     (BinCount 10) None None = Inl UnboundLocalError"
  by (simp add: init_defs)

end
